theory Spec2Isabelle
  imports Complex_Main
begin

section \<open>Values exchanged with the control panel\<close>

text \<open>
  The program in \<^verbatim>\<open>main.go\<close> talks to the ISPConfig remote API with JSON documents.
  A document, and likewise a value that \<^verbatim>\<open>encoding/json\<close> stores in an
  \<^verbatim>\<open>interface{}\<close>, is a \<open>jvalue\<close>. A Go \<^verbatim>\<open>map[string]interface{}\<close> is kept as an
  association list; the program only builds such maps from literals and reads them by key.
\<close>

datatype jvalue =
    JNull
  | JBool bool
  | JNumber real
  | JString string
  | JArray "jvalue list"
  | JObject "(string \<times> jvalue) list"

type_synonym gomap = "(string \<times> jvalue) list"

text \<open>
  Errors are Go \<^verbatim>\<open>error\<close> values. The program creates its own with \<^verbatim>\<open>fmt.Errorf\<close> and
  \<^verbatim>\<open>errors.New\<close> (\<open>ErrorString\<close>, carrying the message) and passes on, unchanged, the
  ones returned by \<^verbatim>\<open>http.Post\<close> (\<open>PostError\<close>) and by the JSON decoder reading the
  response body (\<open>DecodeError\<close>).
\<close>

datatype error =
    PostError string
  | DecodeError string
  | ErrorString string

record http_response =
  Status :: string
  StatusCode :: int
  Body :: string

record loginResponse =
  Code :: string
  Response :: string

record zoneInfoResponse =
  ID :: string
  ServerID :: string
  SysUserID :: string
  ClientId :: int

record zoneApiResponse =
  Code_z :: string
  Message_z :: string
  Response_z :: "zoneInfoResponse list"

record clientIDResponse =
  Response_c :: int

text \<open>
  A \<^verbatim>\<open>time.Time\<close> is used through two of its methods only, \<^verbatim>\<open>Unix()\<close> and
  \<^verbatim>\<open>Format(layout)\<close>; a value of the model is what these two return.
\<close>

record Time =
  Unix :: int
  Format :: "string \<Rightarrow> string"

text \<open>
  Everything outside the program is collected in \<open>env\<close>: the four package-level variables
  read from the process environment, the HTTP transport (\<^verbatim>\<open>http.Post\<close> applied to a URL
  and the marshalled document, answering with a transport error message or a response),
  the JSON decoder for each target type the program decodes into, and the clock.
  Decoding into a \<^verbatim>\<open>map[string]interface{}\<close> takes the map the variable already holds:
  \<^verbatim>\<open>removeTxt\<close> decodes twice into the same variable.
\<close>

record env =
  ISPCUser :: string
  ISPCPassword :: string
  ISPCApi :: string
  http_Post :: "string \<Rightarrow> jvalue \<Rightarrow> string + http_response"
  Decode_loginResponse :: "string \<Rightarrow> string + loginResponse"
  Decode_zoneApiResponse :: "string \<Rightarrow> string + zoneApiResponse"
  Decode_clientIDResponse :: "string \<Rightarrow> string + clientIDResponse"
  Decode_map :: "string \<Rightarrow> gomap \<Rightarrow> string + gomap"
  time_Now :: "nat \<Rightarrow> Time"

text \<open>One \<^verbatim>\<open>http.Post\<close>: the URL and the document sent.\<close>

type_synonym call = "string \<times> jvalue"

text \<open>A function that can end in a run-time panic either returns or panics.\<close>

datatype 'a outcome = Return 'a | Panic

section \<open>Library functions the program uses\<close>

text \<open>\<^verbatim>\<open>strings.Split(s, sep)\<close> for a separator of one byte.\<close>

fun Split :: "string \<Rightarrow> char \<Rightarrow> string list" where
  "Split [] sep = [[]]"
| "Split (c # cs) sep =
     (if c = sep then [] # Split cs sep
      else (case Split cs sep of [] \<Rightarrow> [[c]] | p # ps \<Rightarrow> (c # p) # ps))"

text \<open>\<^verbatim>\<open>strings.Trim(s, cutset)\<close>: all leading and trailing bytes of the cutset removed.\<close>

definition Trim :: "string \<Rightarrow> string \<Rightarrow> string" where
  "Trim s cutset =
     rev (dropWhile (\<lambda>c. c \<in> set cutset) (rev (dropWhile (\<lambda>c. c \<in> set cutset) s)))"

text \<open>Indexing a slice: Go checks the bounds and panics outside them.\<close>

definition at_index :: "'a list \<Rightarrow> int \<Rightarrow> 'a option" where
  "at_index xs i = (if 0 \<le> i \<and> i < int (length xs) then Some (xs ! nat i) else None)"

text \<open>\<^verbatim>\<open>m[k]\<close> on a map of interfaces: the nil interface when the key is absent.\<close>

definition map_index :: "gomap \<Rightarrow> string \<Rightarrow> jvalue" where
  "map_index m k = (case map_of m k of None \<Rightarrow> JNull | Some v \<Rightarrow> v)"

text \<open>The comma-ok type assertions \<^verbatim>\<open>v.(string)\<close>, \<^verbatim>\<open>v.([]interface{})\<close>,
  \<^verbatim>\<open>v.(map[string]interface{})\<close>.\<close>

fun assert_string :: "jvalue \<Rightarrow> string \<times> bool" where
  "assert_string (JString s) = (s, True)"
| "assert_string _ = ([], False)"

fun assert_slice :: "jvalue \<Rightarrow> jvalue list \<times> bool" where
  "assert_slice (JArray xs) = (xs, True)"
| "assert_slice _ = ([], False)"

fun assert_map :: "jvalue \<Rightarrow> gomap \<times> bool" where
  "assert_map (JObject m) = (m, True)"
| "assert_map _ = ([], False)"

text \<open>The verb \<^verbatim>\<open>%d\<close> of \<^verbatim>\<open>fmt\<close>: an integer in decimal.\<close>

definition digit_char :: "nat \<Rightarrow> char" where
  "digit_char d = ''0123456789'' ! d"

fun digits :: "nat \<Rightarrow> string" where
  "digits n = (if n < 10 then [digit_char n] else digits (n div 10) @ [digit_char (n mod 10)])"

declare digits.simps [simp del]

definition Sprintf_d :: "int \<Rightarrow> string" where
  "Sprintf_d i = (if i < 0 then CHR ''-'' # digits (nat (- i)) else digits (nat i))"

section \<open>The program\<close>

text \<open>
  Each function returns what the Go function returns, paired with the calls to
  \<^verbatim>\<open>http.Post\<close> it made, in order. A Go result \<^verbatim>\<open>(T, error)\<close> is a pair whose second
  component is \<open>None\<close> for \<^verbatim>\<open>nil\<close>. \<^verbatim>\<open>json.Marshal\<close> cannot fail on the maps of strings,
  booleans and integers built here, so its error branches are not reachable and have no
  counterpart. Logging below the fatal level is left out.
\<close>

definition loginData :: "env \<Rightarrow> jvalue" where
  "loginData env = JObject [(''username'', JString (ISPCUser env)),
                            (''password'', JString (ISPCPassword env)),
                            (''client_login'', JBool False)]"

definition login :: "env \<Rightarrow> (string \<times> error option) \<times> call list" where
  "login env =
     (let loginData = loginData env;
          url = ISPCApi env @ ''?login''
      in case http_Post env url loginData of
           Inl e \<Rightarrow> (([], Some (PostError e)), [(url, loginData)])
         | Inr resp \<Rightarrow>
             (case Decode_loginResponse env (Body resp) of
                Inl e \<Rightarrow> (([], Some (DecodeError e)), [(url, loginData)])
              | Inr loginResp \<Rightarrow>
                  if Code loginResp \<noteq> ''ok''
                  then (([], Some (ErrorString ''failed to retrieve session ID'')),
                        [(url, loginData)])
                  else ((Trim (Response loginResp) [CHR 0x22], None), [(url, loginData)])))"

text \<open>
  \<^verbatim>\<open>getZoneInfo\<close> returns a pointer and an error; the pointer is \<open>None\<close> for \<^verbatim>\<open>nil\<close>.
  The two slice expressions \<^verbatim>\<open>parts[len(parts)-3]\<close>, \<^verbatim>\<open>parts[len(parts)-2]\<close> and the
  three reads of \<^verbatim>\<open>zoneInfoResp.Response[0]\<close> are bounds-checked by Go.
\<close>

definition zone_get_data :: "string \<Rightarrow> string \<Rightarrow> jvalue" where
  "zone_get_data sessionId domainWithTLD =
     JObject [(''session_id'', JString sessionId),
              (''primary_id'', JObject [(''origin'', JString domainWithTLD)])]"

definition client_get_id_data :: "string \<Rightarrow> string \<Rightarrow> jvalue" where
  "client_get_id_data sessionId sysUserID =
     JObject [(''session_id'', JString sessionId), (''sys_userid'', JString sysUserID)]"

definition getZoneInfo ::
  "env \<Rightarrow> string \<Rightarrow> string \<Rightarrow> (zoneInfoResponse option \<times> error option) outcome \<times> call list"
where
  "getZoneInfo env sessionId domain =
     (let parts = Split domain CHR ''.'' in
      if length parts < 2
      then (Return (None, Some (ErrorString ''invalid domain format'')), [])
      else
       (case at_index parts (int (length parts) - 3) of
          None \<Rightarrow> (Panic, [])
        | Some sld \<Rightarrow>
       (case at_index parts (int (length parts) - 2) of
          None \<Rightarrow> (Panic, [])
        | Some tld \<Rightarrow>
       (let domainWithTLD = sld @ ''.'' @ tld @ ''.'';
            data = zone_get_data sessionId domainWithTLD;
            c1 = (ISPCApi env @ ''?dns_zone_get'', data)
        in case http_Post env (fst c1) data of
             Inl e \<Rightarrow> (Return (None, Some (PostError e)), [c1])
           | Inr resp \<Rightarrow>
          if StatusCode resp \<noteq> 200
          then (Return (None, Some (ErrorString
                  (''failed to retrieve zone information: '' @ Status resp))), [c1])
          else
           (case Decode_zoneApiResponse env (Body resp) of
              Inl e \<Rightarrow> (Return (None, Some (DecodeError e)), [c1])
            | Inr zoneInfoResp \<Rightarrow>
           (case at_index (Response_z zoneInfoResp) 0 of
              None \<Rightarrow> (Panic, [c1])
            | Some z \<Rightarrow>
           (let (serverID, zoneID, sysUserID) =
                  (if ID z \<noteq> [] then (ServerID z, ID z, SysUserID z) else ([], [], []));
                data2 = client_get_id_data sessionId sysUserID;
                c2 = (ISPCApi env @ ''?client_get_id'', data2)
            in case http_Post env (fst c2) data2 of
                 Inl e \<Rightarrow> (Return (None, Some (PostError e)), [c1, c2])
               | Inr resp2 \<Rightarrow>
              if StatusCode resp2 \<noteq> 200
              then (Return (None, Some (ErrorString
                      (''failed to retrieve client ID: '' @ Status resp2))), [c1, c2])
              else
               (case Decode_clientIDResponse env (Body resp2) of
                  Inl e \<Rightarrow> (Return (None, Some (DecodeError e)), [c1, c2])
                | Inr clientIDResponse \<Rightarrow>
                    (Return (Some \<lparr>ID = zoneID, ServerID = serverID, SysUserID = sysUserID,
                                   ClientId = Response_c clientIDResponse\<rparr>, None),
                     [c1, c2])))))))))"

text \<open>
  \<^verbatim>\<open>addTxt\<close> reads the clock twice: the first reading gives the serial, the second the
  stamp.
\<close>

definition addTxt_params :: "env \<Rightarrow> string \<Rightarrow> string \<Rightarrow> string \<Rightarrow> string \<Rightarrow> gomap" where
  "addTxt_params env serverID zone fulldomain txtValue =
     (let curSerial = Sprintf_d (Unix (time_Now env 0));
          curStamp = Format (time_Now env 1) ''2006-01-02 15:04:05''
      in [(''server_id'', JString serverID),
          (''zone'', JString zone),
          (''name'', JString fulldomain),
          (''type'', JString ''txt''),
          (''data'', JString txtValue),
          (''aux'', JString ''0''),
          (''ttl'', JString ''3600''),
          (''active'', JString ''y''),
          (''stamp'', JString curStamp),
          (''serial'', JString curSerial)])"

definition addTxt_data ::
  "env \<Rightarrow> string \<Rightarrow> int \<Rightarrow> string \<Rightarrow> string \<Rightarrow> string \<Rightarrow> string \<Rightarrow> gomap"
where
  "addTxt_data env sessionID clientID serverID zone fulldomain txtValue =
     [(''session_id'', JString sessionID),
      (''client_id'', JNumber (of_int clientID)),
      (''params'', JObject (addTxt_params env serverID zone fulldomain txtValue)),
      (''update_serial'', JBool True)]"

definition addTxt ::
  "env \<Rightarrow> string \<Rightarrow> int \<Rightarrow> string \<Rightarrow> string \<Rightarrow> string \<Rightarrow> string
     \<Rightarrow> (string \<times> error option) \<times> call list"
where
  "addTxt env sessionID clientID serverID zone fulldomain txtValue =
     (let data = JObject (addTxt_data env sessionID clientID serverID zone fulldomain txtValue);
          c = (ISPCApi env @ ''?dns_txt_add'', data)
      in case http_Post env (fst c) data of
           Inl e \<Rightarrow> (([], Some (PostError e)), [c])
         | Inr resp \<Rightarrow>
        if StatusCode resp \<noteq> 200
        then (([], Some (ErrorString
                (''HTTP request failed with status code: '' @ Sprintf_d (StatusCode resp)))),
              [c])
        else
         (case Decode_map env (Body resp) [] of
            Inl e \<Rightarrow> (([], Some (DecodeError e)), [c])
          | Inr response \<Rightarrow>
              (let (recordID, ok) = assert_string (map_index response ''response'') in
               if \<not> ok
               then (([], Some (ErrorString ''failed to extract record ID from response'')),
                     [c])
               else ((recordID, None), [c]))))"

text \<open>
  \<^verbatim>\<open>removeTxt\<close> decodes the answer of the delete call into the variable \<^verbatim>\<open>response\<close>
  that already holds the decoded answer of the lookup. \<^verbatim>\<open>records[0]\<close> is read only after
  the check that the list is not empty, so the index is in range.
\<close>

definition txt_get_data :: "string \<Rightarrow> string \<Rightarrow> jvalue" where
  "txt_get_data sessionID fulldomain =
     JObject [(''session_id'', JString sessionID),
              (''primary_id'', JObject [(''name'', JString fulldomain),
                                        (''type'', JString ''TXT'')])]"

definition txt_delete_data :: "string \<Rightarrow> string \<Rightarrow> jvalue" where
  "txt_delete_data sessionID recordID =
     JObject [(''session_id'', JString sessionID),
              (''primary_id'', JString recordID),
              (''update_serial'', JBool True)]"

definition removeTxt :: "env \<Rightarrow> string \<Rightarrow> string \<Rightarrow> error option \<times> call list" where
  "removeTxt env sessionID fulldomain =
     (let curData = txt_get_data sessionID fulldomain;
          c1 = (ISPCApi env @ ''?dns_txt_get'', curData)
      in case http_Post env (fst c1) curData of
           Inl e \<Rightarrow> (Some (PostError e), [c1])
         | Inr resp \<Rightarrow>
        if StatusCode resp \<noteq> 200
        then (Some (ErrorString
                (''HTTP request failed with status code: '' @ Sprintf_d (StatusCode resp))),
              [c1])
        else
         (case Decode_map env (Body resp) [] of
            Inl e \<Rightarrow> (Some (DecodeError e), [c1])
          | Inr response \<Rightarrow>
         (let (code, ok) = assert_string (map_index response ''code'') in
          if ok \<and> code = ''ok'' then
            (let (records, ok) = assert_slice (map_index response ''response'') in
             if \<not> ok \<or> length records = 0
             then (Some (ErrorString ''No TXT record found''), [c1])
             else
              (let (record, ok) = assert_map (records ! 0) in
               if \<not> ok then (Some (ErrorString ''Invalid record format''), [c1])
               else
              (let (recordID, ok) = assert_string (map_index record ''id'') in
               if \<not> ok then (Some (ErrorString ''Failed to extract record ID''), [c1])
               else
              (let curData2 = txt_delete_data sessionID recordID;
                   c2 = (ISPCApi env @ ''?dns_txt_delete'', curData2)
               in case http_Post env (fst c2) curData2 of
                    Inl e \<Rightarrow> (Some (PostError e), [c1, c2])
                  | Inr resp2 \<Rightarrow>
                 if StatusCode resp2 \<noteq> 200
                 then (Some (ErrorString
                         (''HTTP request failed with status code: ''
                            @ Sprintf_d (StatusCode resp2))),
                       [c1, c2])
                 else
                  (case Decode_map env (Body resp2) response of
                     Inl e \<Rightarrow> (Some (DecodeError e), [c1, c2])
                   | Inr response2 \<Rightarrow>
                       (let (code2, ok) = assert_string (map_index response2 ''code'') in
                        if ok \<and> code2 = ''ok'' then (None, [c1, c2])
                        else (Some (ErrorString ''Failed to delete TXT record''),
                              [c1, c2])))))))
          else (Some (ErrorString ''Failed to retrieve TXT record''), [c1]))))"

text \<open>
  \<^verbatim>\<open>main\<close>, from the point where the logger exists. \<^verbatim>\<open>logger.Fatal\<close> writes its message
  and ends the process with a non-zero status; returning from \<^verbatim>\<open>main\<close> ends it with
  status zero; a panic ends it abnormally. \<open>args\<close> is \<^verbatim>\<open>os.Args\<close>, the program name first.
\<close>

datatype exit = Exit0 | Fatal string "error option" | GoPanic

definition main :: "env \<Rightarrow> string list \<Rightarrow> exit \<times> call list" where
  "main env args =
     (if length args < 3 then (Fatal ''Invalid number of arguments'' None, [])
      else
        let action = args ! 1; domain = args ! 2 in
        if action = ''present'' \<and> length args < 4
        then (Fatal ''Not enough arguments for 'present' action'' None, [])
        else if domain = [] then (Fatal ''Empty domain'' None, [])
        else
         (case login env of
            ((sessionId, Some err), t1) \<Rightarrow> (Fatal ''Failed to login'' (Some err), t1)
          | ((sessionId, None), t1) \<Rightarrow>
         (case getZoneInfo env sessionId domain of
            (Panic, t2) \<Rightarrow> (GoPanic, t1 @ t2)
          | (Return (zoneInfo, Some err), t2) \<Rightarrow>
              (Fatal ''Failed to get zone info'' (Some err), t1 @ t2)
          | (Return (zoneInfo, None), t2) \<Rightarrow>
              if action = ''present'' then
                (case zoneInfo of
                   None \<Rightarrow> (GoPanic, t1 @ t2)
                 | Some z \<Rightarrow>
                     (case addTxt env sessionId (ClientId z) (ServerID z) (ID z) domain
                             (args ! 3) of
                        ((recordId, Some err), t3) \<Rightarrow>
                          (Fatal ''Failed to add record'' (Some err), t1 @ t2 @ t3)
                      | ((recordId, None), t3) \<Rightarrow> (Exit0, t1 @ t2 @ t3)))
              else if action = ''cleanup'' then
                (case removeTxt env sessionId domain of
                   (Some err, t3) \<Rightarrow>
                     (Fatal ''Failed to remove record'' (Some err), t1 @ t2 @ t3)
                 | (None, t3) \<Rightarrow> (Exit0, t1 @ t2 @ t3))
              else (Exit0, t1 @ t2))))"

section \<open>A concrete control panel for evaluation\<close>

text \<open>
  The theorems below hold for every environment. To evaluate the program on concrete
  inputs, \<open>panel table\<close> is an environment whose transport answers each endpoint as the
  table says (and refuses the connection for an endpoint the table does not list), whose
  decoders know the response bodies listed here, and whose clock stands still. Decoding a
  JSON object into an existing map keeps the entries the object does not mention.
\<close>

definition answer :: "string \<Rightarrow> int \<Rightarrow> string \<Rightarrow> http_response" where
  "answer st code body = \<lparr>Status = st, StatusCode = code, Body = body\<rparr>"

definition served ::
  "string \<Rightarrow> (string \<times> http_response) list \<Rightarrow> string \<Rightarrow> jvalue \<Rightarrow> string + http_response"
where
  "served api table url doc =
     (case map_of (map (\<lambda>(ep, r). (api @ ep, r)) table) url of
        None \<Rightarrow> Inl ''connection refused''
      | Some r \<Rightarrow> Inr r)"

definition decoded :: "(string \<times> 'a) list \<Rightarrow> string \<Rightarrow> string + 'a" where
  "decoded table body =
     (case map_of table body of
        None \<Rightarrow> Inl ''invalid character''
      | Some v \<Rightarrow> Inr v)"

definition decoded_into :: "(string \<times> gomap) list \<Rightarrow> string \<Rightarrow> gomap \<Rightarrow> string + gomap" where
  "decoded_into table body old =
     (case map_of table body of
        None \<Rightarrow> Inl ''invalid character''
      | Some kvs \<Rightarrow> Inr (kvs @ old))"

definition login_ok :: string where
  \<open>login_ok = ''{"code":"ok","message":"","response":"SID1"}''\<close>

definition login_quoted :: string where
  \<open>login_quoted = ''{"code":"ok","message":"","response":"'' @ [CHR 0x5C, CHR 0x22]
                    @ ''SID1'' @ [CHR 0x5C, CHR 0x22] @ ''"}''\<close>

definition login_failed :: string where
  \<open>login_failed = ''{"code":"login_failed","message":"The login failed.","response":""}''\<close>

definition zone_found :: string where
  \<open>zone_found =
     ''{"code":"ok","message":"","response":[{"id":"Z1","server_id":"S1","sys_userid":"U1"}]}''\<close>

definition zone_blank :: string where
  \<open>zone_blank = ''{"code":"ok","message":"","response":[{"id":""}]}''\<close>

definition zone_none :: string where
  \<open>zone_none = ''{"code":"ok","message":"","response":[]}''\<close>

definition client_42 :: string where
  \<open>client_42 = ''{"code":"ok","message":"","response":42}''\<close>

definition add_ok :: string where
  \<open>add_ok = ''{"code":"ok","message":"","response":"REC-9"}''\<close>

definition add_empty :: string where
  \<open>add_empty = ''{"code":"ok","message":"","response":""}''\<close>

definition get_one :: string where
  \<open>get_one = ''{"code":"ok","message":"","response":[{"id":"77","type":"TXT"}]}''\<close>

definition get_none :: string where
  \<open>get_none = ''{"code":"ok","message":"","response":[]}''\<close>

definition delete_ok :: string where
  \<open>delete_ok = ''{"code":"ok","message":"","response":1}''\<close>

definition delete_rejected :: string where
  \<open>delete_rejected = ''{"code":"remote_fault","message":"denied","response":false}''\<close>

definition login_bodies :: "(string \<times> loginResponse) list" where
  "login_bodies =
     [(login_ok, \<lparr>Code = ''ok'', Response = ''SID1''\<rparr>),
      (login_quoted, \<lparr>Code = ''ok'', Response = CHR 0x22 # ''SID1'' @ [CHR 0x22]\<rparr>),
      (login_failed, \<lparr>Code = ''login_failed'', Response = []\<rparr>)]"

definition zone_bodies :: "(string \<times> zoneApiResponse) list" where
  "zone_bodies =
     [(zone_found, \<lparr>Code_z = ''ok'', Message_z = [],
                    Response_z = [\<lparr>ID = ''Z1'', ServerID = ''S1'', SysUserID = ''U1'',
                                   ClientId = 0\<rparr>]\<rparr>),
      (zone_blank, \<lparr>Code_z = ''ok'', Message_z = [],
                    Response_z = [\<lparr>ID = [], ServerID = [], SysUserID = [],
                                   ClientId = 0\<rparr>]\<rparr>),
      (zone_none, \<lparr>Code_z = ''ok'', Message_z = [], Response_z = []\<rparr>)]"

definition client_bodies :: "(string \<times> clientIDResponse) list" where
  "client_bodies = [(client_42, \<lparr>Response_c = 42\<rparr>)]"

definition map_bodies :: "(string \<times> gomap) list" where
  "map_bodies =
     [(add_ok, [(''code'', JString ''ok''), (''message'', JString []),
                (''response'', JString ''REC-9'')]),
      (add_empty, [(''code'', JString ''ok''), (''message'', JString []),
                   (''response'', JString [])]),
      (get_one, [(''code'', JString ''ok''), (''message'', JString []),
                 (''response'', JArray [JObject [(''id'', JString ''77''),
                                                 (''type'', JString ''TXT'')]])]),
      (get_none, [(''code'', JString ''ok''), (''message'', JString []),
                  (''response'', JArray [])]),
      (delete_ok, [(''code'', JString ''ok''), (''message'', JString []),
                   (''response'', JNumber 1)]),
      (delete_rejected, [(''code'', JString ''remote_fault''),
                         (''message'', JString ''denied''), (''response'', JBool False)])]"

definition clock :: "nat \<Rightarrow> Time" where
  "clock k = \<lparr>Unix = 1700000000, Format = (\<lambda>layout. ''2023-11-14 22:13:20'')\<rparr>"

definition panel_url :: string where
  "panel_url = ''https://panel.test/remote/json.php''"

definition panel :: "(string \<times> http_response) list \<Rightarrow> env" where
  "panel table =
     \<lparr>ISPCUser = ''admin'', ISPCPassword = ''secret'', ISPCApi = panel_url,
      http_Post = served panel_url table,
      Decode_loginResponse = decoded login_bodies,
      Decode_zoneApiResponse = decoded zone_bodies,
      Decode_clientIDResponse = decoded client_bodies,
      Decode_map = decoded_into map_bodies,
      time_Now = clock\<rparr>"

text \<open>The panel on which every call succeeds.\<close>

definition happy :: "(string \<times> http_response) list" where
  "happy =
     [(''?login'', answer ''200 OK'' 200 login_ok),
      (''?dns_zone_get'', answer ''200 OK'' 200 zone_found),
      (''?client_get_id'', answer ''200 OK'' 200 client_42),
      (''?dns_txt_add'', answer ''200 OK'' 200 add_ok),
      (''?dns_txt_get'', answer ''200 OK'' 200 get_one),
      (''?dns_txt_delete'', answer ''200 OK'' 200 delete_ok)]"

section \<open>Facts about the library functions\<close>

lemma Split_not_Nil: "Split s c \<noteq> []"
  by (induction s) (auto split: list.splits)

text \<open>The number of labels is one more than the number of separators.\<close>

lemma length_Split: "length (Split s c) = Suc (count_list s c)"
  by (induction s) (auto split: list.splits simp: Split_not_Nil)

lemma Split_no_sep: "p \<in> set (Split s c) \<Longrightarrow> c \<notin> set p"
  by (induction s arbitrary: p) (auto split: list.splits if_splits)



lemma assert_string_ok: "snd (assert_string v) \<longleftrightarrow> (\<exists>s. v = JString s)"
  by (cases v) simp_all

lemma assert_string_fail: "\<not> snd (assert_string v) \<Longrightarrow> fst (assert_string v) = []"
  by (cases v) simp_all

lemma assert_slice_ok: "snd (assert_slice v) \<longleftrightarrow> (\<exists>xs. v = JArray xs)"
  by (cases v) simp_all

lemma assert_map_ok: "snd (assert_map v) \<longleftrightarrow> (\<exists>m. v = JObject m)"
  by (cases v) simp_all

lemma digits_base: "n < 10 \<Longrightarrow> digits n = [digit_char n]"
  by (simp add: digits.simps)

lemma digits_step: "10 \<le> n \<Longrightarrow> digits n = digits (n div 10) @ [digit_char (n mod 10)]"
  by (subst digits.simps) simp

lemma Sprintf_d_201: "Sprintf_d 201 = ''201''"
  by (simp add: Sprintf_d_def digits_base digits_step digit_char_def)

lemma Sprintf_d_now: "Sprintf_d 1700000000 = ''1700000000''"
  by (simp add: Sprintf_d_def digits_base digits_step digit_char_def)

section \<open>Evaluating the concrete panel\<close>

lemma served_lookup:
  "served api table (api @ ep) d =
     (case map_of table ep of None \<Rightarrow> Inl ''connection refused'' | Some r \<Rightarrow> Inr r)"
proof -
  have "map_of (map (\<lambda>(ep, r). (api @ ep, r)) table) (api @ ep) = map_of table ep"
    by (induction table) auto
  then show ?thesis by (simp add: served_def)
qed

lemma panel_sel:
  "ISPCApi (panel t) = panel_url"
  "ISPCUser (panel t) = ''admin''"
  "ISPCPassword (panel t) = ''secret''"
  "http_Post (panel t) (panel_url @ ep) d =
     (case map_of t ep of None \<Rightarrow> Inl ''connection refused'' | Some r \<Rightarrow> Inr r)"
  "Decode_loginResponse (panel t) = decoded login_bodies"
  "Decode_zoneApiResponse (panel t) = decoded zone_bodies"
  "Decode_clientIDResponse (panel t) = decoded client_bodies"
  "Decode_map (panel t) = decoded_into map_bodies"
  "time_Now (panel t) = clock"
  by (simp_all add: panel_def served_lookup)

lemma decoded_login:
  "decoded login_bodies login_ok = Inr \<lparr>Code = ''ok'', Response = ''SID1''\<rparr>"
  "decoded login_bodies login_quoted =
     Inr \<lparr>Code = ''ok'', Response = CHR 0x22 # ''SID1'' @ [CHR 0x22]\<rparr>"
  "decoded login_bodies login_failed = Inr \<lparr>Code = ''login_failed'', Response = []\<rparr>"
  by (simp_all add: decoded_def login_bodies_def login_ok_def login_quoted_def
        login_failed_def)

lemma decoded_zone:
  "decoded zone_bodies zone_found =
     Inr \<lparr>Code_z = ''ok'', Message_z = [],
          Response_z = [\<lparr>ID = ''Z1'', ServerID = ''S1'', SysUserID = ''U1'', ClientId = 0\<rparr>]\<rparr>"
  "decoded zone_bodies zone_blank =
     Inr \<lparr>Code_z = ''ok'', Message_z = [],
          Response_z = [\<lparr>ID = [], ServerID = [], SysUserID = [], ClientId = 0\<rparr>]\<rparr>"
  "decoded zone_bodies zone_none = Inr \<lparr>Code_z = ''ok'', Message_z = [], Response_z = []\<rparr>"
  by (simp_all add: decoded_def zone_bodies_def zone_found_def zone_blank_def zone_none_def)

lemma decoded_client: "decoded client_bodies client_42 = Inr \<lparr>Response_c = 42\<rparr>"
  by (simp add: decoded_def client_bodies_def)

lemma decoded_add:
  "decoded_into map_bodies add_ok old =
     Inr ([(''code'', JString ''ok''), (''message'', JString []),
           (''response'', JString ''REC-9'')] @ old)"
  "decoded_into map_bodies add_empty old =
     Inr ([(''code'', JString ''ok''), (''message'', JString []),
           (''response'', JString [])] @ old)"
  by (simp_all add: decoded_into_def map_bodies_def add_ok_def add_empty_def)

lemma decoded_get:
  "decoded_into map_bodies get_one old =
     Inr ([(''code'', JString ''ok''), (''message'', JString []),
           (''response'', JArray [JObject [(''id'', JString ''77''),
                                           (''type'', JString ''TXT'')]])] @ old)"
  "decoded_into map_bodies get_none old =
     Inr ([(''code'', JString ''ok''), (''message'', JString []),
           (''response'', JArray [])] @ old)"
  by (simp_all add: decoded_into_def map_bodies_def add_ok_def add_empty_def get_one_def
        get_none_def)

lemma decoded_delete:
  "decoded_into map_bodies delete_ok old =
     Inr ([(''code'', JString ''ok''), (''message'', JString []),
           (''response'', JNumber 1)] @ old)"
  "decoded_into map_bodies delete_rejected old =
     Inr ([(''code'', JString ''remote_fault''), (''message'', JString ''denied''),
           (''response'', JBool False)] @ old)"
  by (simp_all add: decoded_into_def map_bodies_def add_ok_def add_empty_def get_one_def
        get_none_def delete_ok_def delete_rejected_def)

lemmas panel_eval =
  panel_sel decoded_login decoded_zone decoded_client decoded_add decoded_get decoded_delete
  happy_def answer_def

section \<open>Authentication\<close>



section \<open>Zone resolution\<close>

text \<open>
  C2. A domain with fewer than three dot-separated labels is to be answered with the
  error "invalid domain format", without a network call and without a crash. The guard in
  \<^verbatim>\<open>getZoneInfo\<close> is \<^verbatim>\<open>len(parts) < 2\<close>, so a domain of exactly two labels passes it and
  \<^verbatim>\<open>parts[len(parts)-3]\<close> reads index \<open>-1\<close>: on \<^verbatim>\<open>example.com\<close> the function panics
  (before any call is made).
\<close>

theorem getZoneInfo_two_labels_panics:
  "getZoneInfo env sessionId ''example.com'' = (Panic, [])"
  by (simp add: getZoneInfo_def at_index_def)

text \<open>
  C8. For a domain of at least three labels the first call of the resolver goes to the
  zone-lookup endpoint, and the document sent carries, as \<^verbatim>\<open>origin\<close> under
  \<^verbatim>\<open>primary_id\<close>, the third-from-last label, a dot, the second-from-last label and a dot.
\<close>

theorem zone_apex_candidate:
  assumes "3 \<le> length (Split domain CHR ''.'')"
  shows "\<exists>r t. getZoneInfo env sessionId domain =
           (r, (ISPCApi env @ ''?dns_zone_get'',
                JObject [(''session_id'', JString sessionId),
                         (''primary_id'',
                          JObject [(''origin'',
                            JString (Split domain CHR ''.'' ! (length (Split domain CHR ''.'') - 3)
                                     @ ''.''
                                     @ Split domain CHR ''.'' ! (length (Split domain CHR ''.'') - 2)
                                     @ ''.''))])])
               # t)"
proof -
  let ?parts = "Split domain CHR ''.''"
  have i3: "at_index ?parts (int (length ?parts) - 3) = Some (?parts ! (length ?parts - 3))"
    using assms by (simp add: at_index_def nat_diff_distrib')
  have i2: "at_index ?parts (int (length ?parts) - 2) = Some (?parts ! (length ?parts - 2))"
    using assms by (simp add: at_index_def nat_diff_distrib')
  have len: "\<not> length ?parts < 2" using assms by simp
  show ?thesis
    unfolding getZoneInfo_def zone_get_data_def Let_def
    by (simp only: len i3 i2 if_False option.case fst_conv)
       (auto split: sum.splits option.splits prod.splits)
qed

theorem zone_apex_candidate_witness:
  "3 \<le> length (Split ''foo.bar.example.com.'' CHR ''.'')
   \<and> (\<exists>r t. getZoneInfo (panel happy) ''SID1'' ''foo.bar.example.com.'' =
          (r, (ISPCApi (panel happy) @ ''?dns_zone_get'',
               JObject [(''session_id'', JString ''SID1''),
                        (''primary_id'', JObject [(''origin'', JString ''example.com.'')])])
              # t))"
  using zone_apex_candidate [of "''foo.bar.example.com.''" "panel happy" "''SID1''"] by simp

text \<open>
  When the first entry of the zone list has an empty ID, the resolver keeps the three
  identifiers empty, still asks for the client ID with the empty owner, and returns
  without an error.
\<close>

lemma getZoneInfo_blank_zone:
  "getZoneInfo (panel ((''?dns_zone_get'', answer ''200 OK'' 200 zone_blank) # happy))
     ''SID1'' ''acme.test.example.org.''
   = (Return (Some \<lparr>ID = [], ServerID = [], SysUserID = [], ClientId = 42\<rparr>, None),
      [(panel_url @ ''?dns_zone_get'',
        JObject [(''session_id'', JString ''SID1''),
                 (''primary_id'', JObject [(''origin'', JString ''example.org.'')])]),
       (panel_url @ ''?client_get_id'',
        JObject [(''session_id'', JString ''SID1''), (''sys_userid'', JString [])])])"
  by (simp add: getZoneInfo_def zone_get_data_def client_get_id_data_def at_index_def Let_def
        panel_eval)

text \<open>
  C3. The same is claimed for a zone list that is empty. There \<^verbatim>\<open>zoneInfoResp.Response[0]\<close>
  is read without a check of the length: on the answer \<^verbatim>\<open>{"code":"ok","response":[]}\<close>
  the function panics after the zone lookup, and the client-ID lookup is never made.
\<close>

theorem getZoneInfo_empty_list_panics:
  "getZoneInfo (panel ((''?dns_zone_get'', answer ''200 OK'' 200 zone_none) # happy))
     ''SID1'' ''acme.test.example.org.''
   = (Panic,
      [(panel_url @ ''?dns_zone_get'',
        JObject [(''session_id'', JString ''SID1''),
                 (''primary_id'', JObject [(''origin'', JString ''example.org.'')])])])"
  by (simp add: getZoneInfo_def zone_get_data_def at_index_def Let_def panel_eval)

section \<open>The HTTP status\<close>

text \<open>
  C5. Every call is to fail on a status outside 2xx. \<^verbatim>\<open>getZoneInfo\<close>, \<^verbatim>\<open>addTxt\<close> and
  \<^verbatim>\<open>removeTxt\<close> compare \<^verbatim>\<open>resp.StatusCode\<close> with \<^verbatim>\<open>http.StatusOK\<close> after each call;
  \<^verbatim>\<open>login\<close> never reads the status. A login answered with status 500 and a body whose
  code is \<^verbatim>\<open>ok\<close> succeeds.
\<close>

theorem login_ignores_status:
  "login (panel ((''?login'', answer ''500 Internal Server Error'' 500 login_ok) # happy))
   = ((''SID1'', None),
      [(panel_url @ ''?login'',
        JObject [(''username'', JString ''admin''), (''password'', JString ''secret''),
                 (''client_login'', JBool False)])])"
  by (simp add: login_def loginData_def Let_def panel_eval Trim_def)

section \<open>Adding the record\<close>

lemma addTxt_unfold:
  "fst (addTxt env sessionID clientID serverID zone fulldomain txtValue) =
     (case http_Post env (ISPCApi env @ ''?dns_txt_add'')
             (JObject (addTxt_data env sessionID clientID serverID zone fulldomain txtValue)) of
        Inl e \<Rightarrow> ([], Some (PostError e))
      | Inr resp \<Rightarrow>
          if StatusCode resp \<noteq> 200
          then ([], Some (ErrorString
                  (''HTTP request failed with status code: '' @ Sprintf_d (StatusCode resp))))
          else (case Decode_map env (Body resp) [] of
                  Inl e \<Rightarrow> ([], Some (DecodeError e))
                | Inr m \<Rightarrow>
                    (case map_index m ''response'' of
                       JString s \<Rightarrow> (s, None)
                     | _ \<Rightarrow> ([], Some (ErrorString
                                ''failed to extract record ID from response'')))))"
  by (simp add: addTxt_def Let_def split: sum.splits jvalue.splits)

text \<open>
  C4, as stated: a record ID is returned if and only if the status is in 2xx and the
  \<^verbatim>\<open>response\<close> field is a string, and never an empty ID with a nil error. Both fail
  on the code: status 201 with a string \<^verbatim>\<open>response\<close> is an error, and status 200 with the
  \<^verbatim>\<open>response\<close> \<^verbatim>\<open>""\<close> returns the empty ID and no error.
\<close>

theorem addTxt_2xx_counterexample:
  "fst (addTxt (panel ((''?dns_txt_add'', answer ''201 Created'' 201 add_ok) # happy))
          ''SID1'' 42 ''S1'' ''Z1'' ''acme.test.example.org.'' ''abc123'')
     = ([], Some (ErrorString ''HTTP request failed with status code: 201''))
   \<and> fst (addTxt (panel ((''?dns_txt_add'', answer ''200 OK'' 200 add_empty) # happy))
          ''SID1'' 42 ''S1'' ''Z1'' ''acme.test.example.org.'' ''abc123'')
     = ([], None)"
  by (simp add: addTxt_unfold map_index_def panel_eval Sprintf_d_201)

text \<open>
  C4, amended. \<^verbatim>\<open>addTxt\<close> returns a nil error if and only if the call is answered, the
  status is exactly 200, the body decodes into a map and the entry \<^verbatim>\<open>response\<close> of the map
  is a string; the record ID returned is then that string, whatever it is. In every other
  case the error is not nil and the ID is empty.
\<close>

theorem addTxt_result:
  fixes env sessionID clientID serverID zone fulldomain txtValue
  defines "out \<equiv> fst (addTxt env sessionID clientID serverID zone fulldomain txtValue)"
      and "doc \<equiv> JObject (addTxt_data env sessionID clientID serverID zone fulldomain txtValue)"
  shows "(snd out = None \<longleftrightarrow>
            (\<exists>resp m s. http_Post env (ISPCApi env @ ''?dns_txt_add'') doc = Inr resp
                \<and> StatusCode resp = 200
                \<and> Decode_map env (Body resp) [] = Inr m
                \<and> map_index m ''response'' = JString s))
       \<and> (\<forall>resp m s. http_Post env (ISPCApi env @ ''?dns_txt_add'') doc = Inr resp
                \<and> StatusCode resp = 200
                \<and> Decode_map env (Body resp) [] = Inr m
                \<and> map_index m ''response'' = JString s
              \<longrightarrow> out = (s, None))
       \<and> (snd out \<noteq> None \<longrightarrow> fst out = [])"
proof (intro conjI)
  show "\<forall>resp m s. http_Post env (ISPCApi env @ ''?dns_txt_add'') doc = Inr resp
                \<and> StatusCode resp = 200
                \<and> Decode_map env (Body resp) [] = Inr m
                \<and> map_index m ''response'' = JString s
              \<longrightarrow> out = (s, None)"
    by (simp add: out_def doc_def addTxt_unfold)
  show "snd out \<noteq> None \<longrightarrow> fst out = []"
    by (simp add: out_def addTxt_unfold split: sum.splits jvalue.splits)
  show "snd out = None \<longleftrightarrow>
            (\<exists>resp m s. http_Post env (ISPCApi env @ ''?dns_txt_add'') doc = Inr resp
                \<and> StatusCode resp = 200
                \<and> Decode_map env (Body resp) [] = Inr m
                \<and> map_index m ''response'' = JString s)"
  proof
    assume "snd out = None"
    then show "\<exists>resp m s. http_Post env (ISPCApi env @ ''?dns_txt_add'') doc = Inr resp
                \<and> StatusCode resp = 200
                \<and> Decode_map env (Body resp) [] = Inr m
                \<and> map_index m ''response'' = JString s"
      by (simp add: out_def doc_def addTxt_unfold split: sum.splits jvalue.splits if_splits)
  next
    assume "\<exists>resp m s. http_Post env (ISPCApi env @ ''?dns_txt_add'') doc = Inr resp
                \<and> StatusCode resp = 200
                \<and> Decode_map env (Body resp) [] = Inr m
                \<and> map_index m ''response'' = JString s"
    then obtain resp m s where
      "http_Post env (ISPCApi env @ ''?dns_txt_add'') doc = Inr resp" "StatusCode resp = 200"
      "Decode_map env (Body resp) [] = Inr m" "map_index m ''response'' = JString s"
      by blast
    then show "snd out = None" by (simp add: out_def doc_def addTxt_unfold)
  qed
qed

theorem addTxt_result_witness:
  "http_Post (panel happy) (ISPCApi (panel happy) @ ''?dns_txt_add'')
      (JObject (addTxt_data (panel happy) ''SID1'' 42 ''S1'' ''Z1'' ''acme.test.example.org.''
                  ''abc123''))
     = Inr (answer ''200 OK'' 200 add_ok)
   \<and> StatusCode (answer ''200 OK'' 200 add_ok) = 200
   \<and> Decode_map (panel happy) (Body (answer ''200 OK'' 200 add_ok)) []
     = Inr [(''code'', JString ''ok''), (''message'', JString []),
            (''response'', JString ''REC-9'')]
   \<and> fst (addTxt (panel happy) ''SID1'' 42 ''S1'' ''Z1'' ''acme.test.example.org.'' ''abc123'')
     = (''REC-9'', None)"
proof -
  let ?m = "[(''code'', JString ''ok''), (''message'', JString []),
             (''response'', JString ''REC-9'')]"
  have p: "http_Post (panel happy) (ISPCApi (panel happy) @ ''?dns_txt_add'')
             (JObject (addTxt_data (panel happy) ''SID1'' 42 ''S1'' ''Z1''
                         ''acme.test.example.org.'' ''abc123''))
           = Inr (answer ''200 OK'' 200 add_ok)"
    by (simp add: panel_sel happy_def)
  have s: "StatusCode (answer ''200 OK'' 200 add_ok) = 200" by (simp add: answer_def)
  have d: "Decode_map (panel happy) (Body (answer ''200 OK'' 200 add_ok)) [] = Inr ?m"
    by (simp add: panel_sel decoded_add answer_def)
  have r: "map_index ?m ''response'' = JString ''REC-9''" by (simp add: map_index_def)
  from addTxt_result [of "panel happy" "''SID1''" 42 "''S1''" "''Z1''"
         "''acme.test.example.org.''" "''abc123''"] p s d r
  have "fst (addTxt (panel happy) ''SID1'' 42 ''S1'' ''Z1'' ''acme.test.example.org.''
              ''abc123'') = (''REC-9'', None)"
    by blast
  with p s d show ?thesis by simp
qed

lemma login_happy:
  "login (panel happy)
   = ((''SID1'', None),
      [(panel_url @ ''?login'',
        JObject [(''username'', JString ''admin''), (''password'', JString ''secret''),
                 (''client_login'', JBool False)])])"
  by (simp add: login_def loginData_def Let_def panel_eval Trim_def)

lemma getZoneInfo_happy:
  "getZoneInfo (panel happy) ''SID1'' ''acme.test.example.org.''
   = (Return (Some \<lparr>ID = ''Z1'', ServerID = ''S1'', SysUserID = ''U1'', ClientId = 42\<rparr>, None),
      [(panel_url @ ''?dns_zone_get'',
        JObject [(''session_id'', JString ''SID1''),
                 (''primary_id'', JObject [(''origin'', JString ''example.org.'')])]),
       (panel_url @ ''?client_get_id'',
        JObject [(''session_id'', JString ''SID1''), (''sys_userid'', JString ''U1'')])])"
  by (simp add: getZoneInfo_def zone_get_data_def client_get_id_data_def at_index_def Let_def
        panel_eval)

lemma addTxt_trace:
  "snd (addTxt env sessionID clientID serverID zone fulldomain txtValue) =
     [(ISPCApi env @ ''?dns_txt_add'',
       JObject (addTxt_data env sessionID clientID serverID zone fulldomain txtValue))]"
  by (simp add: addTxt_def Let_def split: sum.splits prod.splits)

text \<open>
  C9, as stated, has the record type \<^verbatim>\<open>"TXT"\<close> in the add-record request. The request
  built by \<^verbatim>\<open>addTxt\<close> has \<^verbatim>\<open>"txt"\<close>.
\<close>

theorem addTxt_type_counterexample:
  "snd (addTxt (panel happy) ''SID1'' 42 ''S1'' ''Z1'' ''acme.test.example.org.'' ''abc123'')
     = [(panel_url @ ''?dns_txt_add'',
         JObject [(''session_id'', JString ''SID1''),
                  (''client_id'', JNumber 42),
                  (''params'',
                   JObject [(''server_id'', JString ''S1''),
                            (''zone'', JString ''Z1''),
                            (''name'', JString ''acme.test.example.org.''),
                            (''type'', JString ''txt''),
                            (''data'', JString ''abc123''),
                            (''aux'', JString ''0''),
                            (''ttl'', JString ''3600''),
                            (''active'', JString ''y''),
                            (''stamp'', JString ''2023-11-14 22:13:20''),
                            (''serial'', JString ''1700000000'')]),
                  (''update_serial'', JBool True)])]
   \<and> snd (addTxt (panel happy) ''SID1'' 42 ''S1'' ''Z1'' ''acme.test.example.org.'' ''abc123'')
     \<noteq> [(panel_url @ ''?dns_txt_add'',
         JObject [(''session_id'', JString ''SID1''),
                  (''client_id'', JNumber 42),
                  (''params'',
                   JObject [(''server_id'', JString ''S1''),
                            (''zone'', JString ''Z1''),
                            (''name'', JString ''acme.test.example.org.''),
                            (''type'', JString ''TXT''),
                            (''data'', JString ''abc123''),
                            (''aux'', JString ''0''),
                            (''ttl'', JString ''3600''),
                            (''active'', JString ''y''),
                            (''stamp'', JString ''2023-11-14 22:13:20''),
                            (''serial'', JString ''1700000000'')]),
                  (''update_serial'', JBool True)])]"
  by (simp add: addTxt_trace addTxt_data_def addTxt_params_def Let_def panel_sel clock_def
        Sprintf_d_now)

text \<open>
  C9, amended. \<^verbatim>\<open>addTxt\<close> makes exactly one call, to the add-record endpoint, and the
  document sent has the session, the client ID, the flag \<^verbatim>\<open>update_serial\<close> set, and the
  parameters: server, zone, name = fqdn, type \<^verbatim>\<open>"txt"\<close> (lower case), data = value,
  ttl \<^verbatim>\<open>"3600"\<close>, active \<^verbatim>\<open>"y"\<close>, the stamp the second clock reading formatted with
  the layout \<^verbatim>\<open>2006-01-02 15:04:05\<close>, the serial the first clock reading's Unix seconds in
  decimal. On a \<^verbatim>\<open>present\<close> invocation whose login and zone resolution succeed, that call
  follows theirs, with the domain and the value of the command line, and the zone, server
  and client the resolver returned.
\<close>

theorem addTxt_request:
  "snd (addTxt env sessionID clientID serverID zone fulldomain txtValue)
     = [(ISPCApi env @ ''?dns_txt_add'',
         JObject [(''session_id'', JString sessionID),
                  (''client_id'', JNumber (of_int clientID)),
                  (''params'',
                   JObject [(''server_id'', JString serverID),
                            (''zone'', JString zone),
                            (''name'', JString fulldomain),
                            (''type'', JString ''txt''),
                            (''data'', JString txtValue),
                            (''aux'', JString ''0''),
                            (''ttl'', JString ''3600''),
                            (''active'', JString ''y''),
                            (''stamp'', JString (Format (time_Now env 1) ''2006-01-02 15:04:05'')),
                            (''serial'', JString (Sprintf_d (Unix (time_Now env 0))))]),
                  (''update_serial'', JBool True)])]
   \<and> (\<forall>args sid t1 z t2.
          4 \<le> length args \<and> args ! 1 = ''present'' \<and> args ! 2 \<noteq> []
          \<and> login env = ((sid, None), t1)
          \<and> getZoneInfo env sid (args ! 2) = (Return (Some z, None), t2)
        \<longrightarrow> snd (main env args)
            = t1 @ t2 @
              [(ISPCApi env @ ''?dns_txt_add'',
                JObject [(''session_id'', JString sid),
                         (''client_id'', JNumber (of_int (ClientId z))),
                         (''params'',
                          JObject [(''server_id'', JString (ServerID z)),
                                   (''zone'', JString (ID z)),
                                   (''name'', JString (args ! 2)),
                                   (''type'', JString ''txt''),
                                   (''data'', JString (args ! 3)),
                                   (''aux'', JString ''0''),
                                   (''ttl'', JString ''3600''),
                                   (''active'', JString ''y''),
                                   (''stamp'',
                                    JString (Format (time_Now env 1) ''2006-01-02 15:04:05'')),
                                   (''serial'', JString (Sprintf_d (Unix (time_Now env 0))))]),
                         (''update_serial'', JBool True)])])"
proof (intro conjI allI impI)
  show "snd (addTxt env sessionID clientID serverID zone fulldomain txtValue)
     = [(ISPCApi env @ ''?dns_txt_add'',
         JObject [(''session_id'', JString sessionID),
                  (''client_id'', JNumber (of_int clientID)),
                  (''params'',
                   JObject [(''server_id'', JString serverID),
                            (''zone'', JString zone),
                            (''name'', JString fulldomain),
                            (''type'', JString ''txt''),
                            (''data'', JString txtValue),
                            (''aux'', JString ''0''),
                            (''ttl'', JString ''3600''),
                            (''active'', JString ''y''),
                            (''stamp'', JString (Format (time_Now env 1) ''2006-01-02 15:04:05'')),
                            (''serial'', JString (Sprintf_d (Unix (time_Now env 0))))]),
                  (''update_serial'', JBool True)])]"
    by (simp add: addTxt_trace addTxt_data_def addTxt_params_def Let_def)
next
  fix args sid t1 z t2
  assume a: "4 \<le> length args \<and> args ! 1 = ''present'' \<and> args ! 2 \<noteq> []
          \<and> login env = ((sid, None), t1)
          \<and> getZoneInfo env sid (args ! 2) = (Return (Some z, None), t2)"
  obtain rid e t3 where
    r: "addTxt env sid (ClientId z) (ServerID z) (ID z) (args ! 2) (args ! 3) = ((rid, e), t3)"
    by (metis surj_pair)
  have t3: "t3 = [(ISPCApi env @ ''?dns_txt_add'',
                   JObject (addTxt_data env sid (ClientId z) (ServerID z) (ID z) (args ! 2)
                              (args ! 3)))]"
    using addTxt_trace [of env sid "ClientId z" "ServerID z" "ID z" "args ! 2" "args ! 3"] r
    by simp
  have "snd (main env args) = t1 @ t2 @ t3"
    using a r by (cases e) (simp_all add: main_def)
  then show "snd (main env args)
            = t1 @ t2 @
              [(ISPCApi env @ ''?dns_txt_add'',
                JObject [(''session_id'', JString sid),
                         (''client_id'', JNumber (of_int (ClientId z))),
                         (''params'',
                          JObject [(''server_id'', JString (ServerID z)),
                                   (''zone'', JString (ID z)),
                                   (''name'', JString (args ! 2)),
                                   (''type'', JString ''txt''),
                                   (''data'', JString (args ! 3)),
                                   (''aux'', JString ''0''),
                                   (''ttl'', JString ''3600''),
                                   (''active'', JString ''y''),
                                   (''stamp'',
                                    JString (Format (time_Now env 1) ''2006-01-02 15:04:05'')),
                                   (''serial'', JString (Sprintf_d (Unix (time_Now env 0))))]),
                         (''update_serial'', JBool True)])]"
    by (simp add: t3 addTxt_data_def addTxt_params_def Let_def)
qed

theorem addTxt_request_witness:
  "4 \<le> length [''prog'', ''present'', ''acme.test.example.org.'', ''abc123'']
   \<and> [''prog'', ''present'', ''acme.test.example.org.'', ''abc123''] ! 1 = ''present''
   \<and> [''prog'', ''present'', ''acme.test.example.org.'', ''abc123''] ! 2 \<noteq> []
   \<and> fst (login (panel happy)) = (''SID1'', None)
   \<and> fst (getZoneInfo (panel happy) ''SID1'' ''acme.test.example.org.'')
       = Return (Some \<lparr>ID = ''Z1'', ServerID = ''S1'', SysUserID = ''U1'', ClientId = 42\<rparr>, None)
   \<and> snd (main (panel happy) [''prog'', ''present'', ''acme.test.example.org.'', ''abc123''])
     = [(panel_url @ ''?login'',
         JObject [(''username'', JString ''admin''), (''password'', JString ''secret''),
                  (''client_login'', JBool False)]),
        (panel_url @ ''?dns_zone_get'',
         JObject [(''session_id'', JString ''SID1''),
                  (''primary_id'', JObject [(''origin'', JString ''example.org.'')])]),
        (panel_url @ ''?client_get_id'',
         JObject [(''session_id'', JString ''SID1''), (''sys_userid'', JString ''U1'')]),
        (panel_url @ ''?dns_txt_add'',
         JObject [(''session_id'', JString ''SID1''),
                  (''client_id'', JNumber 42),
                  (''params'',
                   JObject [(''server_id'', JString ''S1''),
                            (''zone'', JString ''Z1''),
                            (''name'', JString ''acme.test.example.org.''),
                            (''type'', JString ''txt''),
                            (''data'', JString ''abc123''),
                            (''aux'', JString ''0''),
                            (''ttl'', JString ''3600''),
                            (''active'', JString ''y''),
                            (''stamp'', JString ''2023-11-14 22:13:20''),
                            (''serial'', JString ''1700000000'')]),
                  (''update_serial'', JBool True)])]"
proof -
  let ?args = "[''prog'', ''present'', ''acme.test.example.org.'', ''abc123'']"
  have h: "4 \<le> length ?args \<and> ?args ! 1 = ''present'' \<and> ?args ! 2 \<noteq> []
           \<and> login (panel happy) = ((''SID1'', None), snd (login (panel happy)))
           \<and> getZoneInfo (panel happy) ''SID1'' (?args ! 2)
               = (Return (Some \<lparr>ID = ''Z1'', ServerID = ''S1'', SysUserID = ''U1'',
                                ClientId = 42\<rparr>, None),
                  snd (getZoneInfo (panel happy) ''SID1'' ''acme.test.example.org.''))"
    by (simp add: login_happy getZoneInfo_happy)
  from addTxt_request [of "panel happy" "[]" 0 "[]" "[]" "[]" "[]", THEN conjunct2,
         rule_format, OF h]
  show ?thesis
    by (simp add: login_happy getZoneInfo_happy panel_sel clock_def Sprintf_d_now)
qed

section \<open>Removing the record\<close>







section \<open>The workflow\<close>

lemma login_trace:
  "snd (login env) =
     [(ISPCApi env @ ''?login'',
       JObject [(''username'', JString (ISPCUser env)),
                (''password'', JString (ISPCPassword env)),
                (''client_login'', JBool False)])]"
  by (simp add: login_def loginData_def Let_def split: sum.splits)

lemma getZoneInfo_ok:
  assumes "getZoneInfo env sid d = (Return (z, None), t)"
  shows "\<exists>apex owner.
           t = [(ISPCApi env @ ''?dns_zone_get'',
                 JObject [(''session_id'', JString sid),
                          (''primary_id'', JObject [(''origin'', JString apex)])]),
                (ISPCApi env @ ''?client_get_id'',
                 JObject [(''session_id'', JString sid), (''sys_userid'', JString owner)])]"
  using assms
  by (auto simp: getZoneInfo_def zone_get_data_def client_get_id_data_def Let_def
        split: if_splits option.splits sum.splits prod.splits)

lemma getZoneInfo_urls:
  "c \<in> set (snd (getZoneInfo env sid d)) \<Longrightarrow>
     fst c = ISPCApi env @ ''?dns_zone_get'' \<or> fst c = ISPCApi env @ ''?client_get_id''"
  by (auto simp: getZoneInfo_def zone_get_data_def client_get_id_data_def Let_def
        split: if_splits option.splits sum.splits prod.splits)



lemma main_other:
  assumes "3 \<le> length args" "args ! 1 \<noteq> ''present''" "args ! 1 \<noteq> ''cleanup''"
    "args ! 2 \<noteq> []"
  shows "main env args =
     (case login env of
        ((sessionId, Some err), t1) \<Rightarrow> (Fatal ''Failed to login'' (Some err), t1)
      | ((sessionId, None), t1) \<Rightarrow>
          (case getZoneInfo env sessionId (args ! 2) of
             (Panic, t2) \<Rightarrow> (GoPanic, t1 @ t2)
           | (Return (zoneInfo, Some err), t2) \<Rightarrow>
               (Fatal ''Failed to get zone info'' (Some err), t1 @ t2)
           | (Return (zoneInfo, None), t2) \<Rightarrow> (Exit0, t1 @ t2)))"
  using assms
  by (simp add: main_def Let_def split: prod.splits option.splits outcome.splits)





text \<open>
  C10. With an action that is neither \<^verbatim>\<open>present\<close> nor \<^verbatim>\<open>cleanup\<close>, at least two arguments
  and a non-empty domain: the first call is the login; after a successful login the calls
  are the login's followed by those of the zone resolution on the domain; every call goes
  to the login, zone-lookup or account-ID-lookup endpoint, none to the add, get or delete
  endpoint of TXT records; when login and zone resolution both return without error the
  program ends with status zero, and then it has made exactly those three calls.
\<close>

theorem other_action_no_mutation:
  assumes "3 \<le> length args" "args ! 1 \<noteq> ''present''" "args ! 1 \<noteq> ''cleanup''"
    "args ! 2 \<noteq> []"
  shows "(\<exists>t. snd (main env args)
              = (ISPCApi env @ ''?login'',
                 JObject [(''username'', JString (ISPCUser env)),
                          (''password'', JString (ISPCPassword env)),
                          (''client_login'', JBool False)]) # t)
       \<and> (\<forall>sid t1. login env = ((sid, None), t1)
            \<longrightarrow> snd (main env args) = t1 @ snd (getZoneInfo env sid (args ! 2)))
       \<and> (\<forall>c \<in> set (snd (main env args)).
             fst c \<in> {ISPCApi env @ ''?login'', ISPCApi env @ ''?dns_zone_get'',
                     ISPCApi env @ ''?client_get_id''}
           \<and> fst c \<notin> {ISPCApi env @ ''?dns_txt_add'', ISPCApi env @ ''?dns_txt_get'',
                     ISPCApi env @ ''?dns_txt_delete''})
       \<and> (\<forall>sid t1 z t2. login env = ((sid, None), t1)
              \<and> getZoneInfo env sid (args ! 2) = (Return (z, None), t2)
            \<longrightarrow> fst (main env args) = Exit0)
       \<and> (fst (main env args) = Exit0
            \<longrightarrow> (\<exists>sid apex owner.
                  snd (main env args)
                  = [(ISPCApi env @ ''?login'',
                      JObject [(''username'', JString (ISPCUser env)),
                               (''password'', JString (ISPCPassword env)),
                               (''client_login'', JBool False)]),
                     (ISPCApi env @ ''?dns_zone_get'',
                      JObject [(''session_id'', JString sid),
                               (''primary_id'', JObject [(''origin'', JString apex)])]),
                     (ISPCApi env @ ''?client_get_id'',
                      JObject [(''session_id'', JString sid),
                               (''sys_userid'', JString owner)])]))"
proof -
  note m = main_other [OF assms, of env]
  obtain sid0 e0 t0 where l0: "login env = ((sid0, e0), t0)" by (metis surj_pair)
  have t0: "t0 = [(ISPCApi env @ ''?login'',
                   JObject [(''username'', JString (ISPCUser env)),
                            (''password'', JString (ISPCPassword env)),
                            (''client_login'', JBool False)])]"
    using login_trace [of env] l0 by simp
  obtain r0 u0 where g0: "getZoneInfo env sid0 (args ! 2) = (r0, u0)" by (metis surj_pair)
  have tr: "snd (main env args) = t0 \<or> snd (main env args) = t0 @ u0"
    using l0 g0 by (simp add: m split: option.splits outcome.splits prod.splits)
  have c1: "\<exists>t. snd (main env args)
              = (ISPCApi env @ ''?login'',
                 JObject [(''username'', JString (ISPCUser env)),
                          (''password'', JString (ISPCPassword env)),
                          (''client_login'', JBool False)]) # t"
    using tr t0 by auto
  have c2: "snd (main env args) = t1 @ snd (getZoneInfo env sid (args ! 2))"
    if "login env = ((sid, None), t1)" for sid t1
    using that
    by (cases "getZoneInfo env sid (args ! 2)")
       (auto simp: m split: option.splits outcome.splits prod.splits)
  have c3: "fst c \<in> {ISPCApi env @ ''?login'', ISPCApi env @ ''?dns_zone_get'',
                     ISPCApi env @ ''?client_get_id''}
           \<and> fst c \<notin> {ISPCApi env @ ''?dns_txt_add'', ISPCApi env @ ''?dns_txt_get'',
                     ISPCApi env @ ''?dns_txt_delete''}"
    if "c \<in> set (snd (main env args))" for c
  proof -
    from that tr have "c \<in> set t0 \<or> c \<in> set u0" by auto
    then have "fst c = ISPCApi env @ ''?login'' \<or> fst c = ISPCApi env @ ''?dns_zone_get''
               \<or> fst c = ISPCApi env @ ''?client_get_id''"
      using t0 getZoneInfo_urls [of c env sid0 "args ! 2"] g0 by auto
    then show ?thesis by auto
  qed
  have c4: "fst (main env args) = Exit0"
    if "login env = ((sid, None), t1)" "getZoneInfo env sid (args ! 2) = (Return (z, None), t2)"
    for sid t1 z t2
    using that by (simp add: m)
  have c5: "\<exists>sid apex owner.
                  snd (main env args)
                  = [(ISPCApi env @ ''?login'',
                      JObject [(''username'', JString (ISPCUser env)),
                               (''password'', JString (ISPCPassword env)),
                               (''client_login'', JBool False)]),
                     (ISPCApi env @ ''?dns_zone_get'',
                      JObject [(''session_id'', JString sid),
                               (''primary_id'', JObject [(''origin'', JString apex)])]),
                     (ISPCApi env @ ''?client_get_id'',
                      JObject [(''session_id'', JString sid),
                               (''sys_userid'', JString owner)])]"
    if ex: "fst (main env args) = Exit0"
  proof -
    from ex l0 g0
    have k: "e0 = None \<and> (\<exists>z. r0 = Return (z, None)) \<and> snd (main env args) = t0 @ u0"
      by (auto simp: m split: option.splits outcome.splits prod.splits)
    then obtain z where z: "getZoneInfo env sid0 (args ! 2) = (Return (z, None), u0)"
      using g0 by blast
    from getZoneInfo_ok [OF z] k t0 show ?thesis
      by (elim exE) (intro exI, simp)
  qed
  show ?thesis
    using c1 c2 c3 c4 c5 by (intro conjI allI impI ballI) blast+
qed

theorem other_action_no_mutation_witness:
  "3 \<le> length [''prog'', ''renew'', ''acme.test.example.org.'']
   \<and> [''prog'', ''renew'', ''acme.test.example.org.''] ! 1 \<noteq> ''present''
   \<and> [''prog'', ''renew'', ''acme.test.example.org.''] ! 1 \<noteq> ''cleanup''
   \<and> [''prog'', ''renew'', ''acme.test.example.org.''] ! 2 \<noteq> []
   \<and> main (panel happy) [''prog'', ''renew'', ''acme.test.example.org.'']
     = (Exit0,
        [(panel_url @ ''?login'',
          JObject [(''username'', JString ''admin''), (''password'', JString ''secret''),
                   (''client_login'', JBool False)]),
         (panel_url @ ''?dns_zone_get'',
          JObject [(''session_id'', JString ''SID1''),
                   (''primary_id'', JObject [(''origin'', JString ''example.org.'')])]),
         (panel_url @ ''?client_get_id'',
          JObject [(''session_id'', JString ''SID1''), (''sys_userid'', JString ''U1'')])])"
proof -
  let ?args = "[''prog'', ''renew'', ''acme.test.example.org.'']"
  have h1: "3 \<le> length ?args" and h2: "?args ! 1 \<noteq> ''present''"
    and h3: "?args ! 1 \<noteq> ''cleanup''" and h4: "?args ! 2 \<noteq> []"
    by simp_all
  have g: "getZoneInfo (panel happy) ''SID1'' (?args ! 2)
           = (Return (Some \<lparr>ID = ''Z1'', ServerID = ''S1'', SysUserID = ''U1'',
                            ClientId = 42\<rparr>, None),
              snd (getZoneInfo (panel happy) ''SID1'' ''acme.test.example.org.''))"
    by (simp add: getZoneInfo_happy)
  note w = other_action_no_mutation [OF h1 h2 h3 h4, of "panel happy"]
  from w [THEN conjunct2, THEN conjunct2, THEN conjunct2, THEN conjunct1, rule_format,
          OF conjI [OF login_happy g]]
  have e: "fst (main (panel happy) ?args) = Exit0" .
  from w [THEN conjunct2, THEN conjunct1, rule_format, OF login_happy]
  have t: "snd (main (panel happy) ?args)
           = snd (login (panel happy)) @ snd (getZoneInfo (panel happy) ''SID1'' (?args ! 2))"
    by (simp add: login_happy)
  have "main (panel happy) ?args = (fst (main (panel happy) ?args), snd (main (panel happy) ?args))"
    by simp
  then show ?thesis
    unfolding e t by (simp add: login_happy getZoneInfo_happy)
qed

end
